theory Spec2Isabelle
  imports Complex_Main "HOL-Library.AList" "HOL-Library.Sublist"
begin

section \<open>Errors\<close>

text \<open>
  A JavaScript \<^verbatim>\<open>Error\<close> object, as far as the code reads it: its \<^verbatim>\<open>name\<close>, its
  \<^verbatim>\<open>message\<close> and the optional \<^verbatim>\<open>code\<close> that \<^verbatim>\<open>executeSql\<close> attaches.
  A function that throws (an async function whose promise rejects) returns \<open>Inl\<close> of
  the error.
\<close>

datatype js_error = JsError (err_name: string) (err_message: string) (err_code: "string option")

text \<open>\<^verbatim>\<open>new Error(message)\<close>: the name of a plain error is "Error".\<close>

definition Error :: "string \<Rightarrow> js_error" where
  "Error msg = JsError ''Error'' msg None"

text \<open>
  The error classes of the mock external APIs (\<^verbatim>\<open>lib/external-apis\<close>, in the second
  half of \<^verbatim>\<open>src/lib/orm.ts\<close>). Each constructor sets \<^verbatim>\<open>this.name\<close> last, so a
  subclass of \<^verbatim>\<open>SendGridError\<close> carries its own name.
\<close>

definition SendGridError :: "string \<Rightarrow> js_error" where
  "SendGridError msg = JsError ''SendGridError'' msg None"

definition RateLimitError :: "string \<Rightarrow> js_error" where
  "RateLimitError msg = JsError ''RateLimitError'' msg None"

definition InvalidEmailError :: "string \<Rightarrow> js_error" where
  "InvalidEmailError msg = JsError ''InvalidEmailError'' msg None"

definition TimeoutError :: "string \<Rightarrow> js_error" where
  "TimeoutError msg = JsError ''TimeoutError'' msg None"

definition SalesforceError :: "string \<Rightarrow> js_error" where
  "SalesforceError msg = JsError ''SalesforceError'' msg None"

definition SentimentAPIError :: "string \<Rightarrow> js_error" where
  "SentimentAPIError msg = JsError ''SentimentAPIError'' msg None"

section \<open>Failure classification (candidate helpers)\<close>

definition isTransientError :: "js_error \<Rightarrow> bool" where
  "isTransientError error =
     (err_name error = ''RateLimitError'' \<or> err_name error = ''TimeoutError'')"

definition isPermanentError :: "js_error \<Rightarrow> bool" where
  "isPermanentError error = (err_name error = ''InvalidEmailError'')"

section \<open>Mock mail API: rate limiter and idempotency cache\<close>

text \<open>
  \<^verbatim>\<open>apiConfig.sendgrid\<close>. The error rate and the random draw are JavaScript numbers;
  they are modelled as reals (no property below depends on the rounding of the
  products \<^verbatim>\<open>errorRate * 0.3\<close> and \<^verbatim>\<open>errorRate * 0.6\<close>).
\<close>

record sendgrid_config =
  rateLimitPerSecond :: int
  errorRate :: real
  latencyMs :: int
  enabled :: bool

text \<open>
  \<^verbatim>\<open>class RateLimiter\<close>: the request times and the idempotency cache, a JavaScript
  \<^verbatim>\<open>Map\<close> from key to \<^verbatim>\<open>{ messageId, timestamp }\<close>, kept as an association list
  (\<^verbatim>\<open>set\<close> is \<^const>\<open>AList.update\<close>, \<^verbatim>\<open>delete\<close> is \<^const>\<open>AList.delete\<close>).
  Times are milliseconds, as \<^verbatim>\<open>Date.now()\<close> returns them.
\<close>

record rate_limiter =
  requests :: "int list"
  idempotencyCache :: "(string \<times> (string \<times> int)) list"

definition checkRateLimit :: "int \<Rightarrow> int \<Rightarrow> rate_limiter \<Rightarrow> bool \<times> rate_limiter" where
  "checkRateLimit now limitPerSecond rl =
     (let reqs = filter (\<lambda>time. now - time < 1000) (requests rl) in
      if int (length reqs) \<ge> limitPerSecond then (False, rl\<lparr>requests := reqs\<rparr>)
      else (True, rl\<lparr>requests := reqs @ [now]\<rparr>))"

definition checkIdempotency :: "int \<Rightarrow> string \<Rightarrow> rate_limiter \<Rightarrow> string option \<times> rate_limiter" where
  "checkIdempotency now key rl =
     (case map_of (idempotencyCache rl) key of
        Some (messageId, timestamp) \<Rightarrow>
          if now - timestamp < 24 * 60 * 60 * 1000 then (Some messageId, rl)
          else (None, rl\<lparr>idempotencyCache := AList.delete key (idempotencyCache rl)\<rparr>)
      | None \<Rightarrow> (None, rl))"

definition cacheIdempotency :: "int \<Rightarrow> string \<Rightarrow> string \<Rightarrow> rate_limiter \<Rightarrow> rate_limiter" where
  "cacheIdempotency now key messageId rl =
     rl\<lparr>idempotencyCache := AList.update key (messageId, now) (idempotencyCache rl)\<rparr>"

definition reset :: "rate_limiter \<Rightarrow> rate_limiter" where
  "reset rl = rl\<lparr>requests := [], idempotencyCache := []\<rparr>"

text \<open>Decimal notation of a number, as a template literal prints an integer.\<close>

fun digits :: "nat \<Rightarrow> string" where
  "digits n =
     (if n < 10 then [''0123456789'' ! n]
      else digits (n div 10) @ [''0123456789'' ! (n mod 10)])"

declare digits.simps [simp del]

definition toString :: "int \<Rightarrow> string" where
  "toString i = (if i < 0 then CHR ''-'' # digits (nat (- i)) else digits (nat i))"

text \<open>
  \<^verbatim>\<open>generateMessageId\<close>: "msg_", the clock, "_" and nine base-36 digits of a random
  number; the digits are an input of the model.
\<close>

definition generateMessageId :: "int \<Rightarrow> string \<Rightarrow> string" where
  "generateMessageId now random_part = ''msg_'' @ toString now @ ''_'' @ random_part"

section \<open>Mock mail API: \<^verbatim>\<open>sendEmail\<close>\<close>

text \<open>
  What one call reads from outside the program: the clock at each \<^verbatim>\<open>Date.now()\<close>,
  the random draw of the error injection and the random part of the message id.
\<close>

record send_env =
  now_checkIdempotency :: int
  now_checkRateLimit :: int
  now_generateMessageId :: int
  now_cacheIdempotency :: int
  rand :: real
  id_suffix :: string

text \<open>
  What a call does besides returning: it sleeps, and it prints one of two console
  lines. "Email sent" is the delivery the mock stands for.
\<close>

datatype effect =
    Slept int
  | LoggedIdempotent string string
  | LoggedSent string string

record api_state =
  sendgrid :: sendgrid_config
  sendgridLimiter :: rate_limiter
  effects :: "effect list"

text \<open>The part of \<^verbatim>\<open>sendEmail\<close> after the idempotency check found nothing.\<close>

definition sendEmail_uncached ::
  "string \<Rightarrow> string \<Rightarrow> string \<Rightarrow> send_env \<Rightarrow> api_state \<Rightarrow> (js_error + string) \<times> api_state" where
  "sendEmail_uncached to body idempotencyKey env s =
     (let s1 = s\<lparr>effects := effects s @ [Slept (latencyMs (sendgrid s))]\<rparr> in
      if CHR ''@'' \<notin> set to \<or> CHR ''.'' \<notin> set to
      then (Inl (InvalidEmailError (''Invalid email format: '' @ to)), s1)
      else
        (case checkRateLimit (now_checkRateLimit env) (rateLimitPerSecond (sendgrid s1))
                (sendgridLimiter s1) of
           (allowed, rl) \<Rightarrow>
             let s2 = s1\<lparr>sendgridLimiter := rl\<rparr> in
             if \<not> allowed
             then (Inl (RateLimitError ''SendGrid rate limit exceeded (500/sec)''), s2)
             else if rand env < errorRate (sendgrid s2) * 0.3
             then (Inl (TimeoutError ''SendGrid request timeout''), s2)
             else if rand env < errorRate (sendgrid s2) * 0.6
             then (Inl (RateLimitError ''SendGrid rate limit exceeded''), s2)
             else if rand env < errorRate (sendgrid s2)
             then (Inl (SendGridError ''SendGrid internal error''), s2)
             else
               let messageId = generateMessageId (now_generateMessageId env) (id_suffix env);
                   s3 = s2\<lparr>sendgridLimiter :=
                          cacheIdempotency (now_cacheIdempotency env) idempotencyKey messageId
                            (sendgridLimiter s2)\<rparr>
               in (Inr messageId, s3\<lparr>effects := effects s3 @ [LoggedSent to messageId]\<rparr>)))"

text \<open>
  \<^verbatim>\<open>sendEmail\<close>. The test \<^verbatim>\<open>if (cachedMessageId)\<close> is JavaScript truthiness: it
  fails for \<^verbatim>\<open>null\<close> and for the empty string.
\<close>

definition sendEmail ::
  "string \<Rightarrow> string \<Rightarrow> string \<Rightarrow> send_env \<Rightarrow> api_state \<Rightarrow> (js_error + string) \<times> api_state" where
  "sendEmail to body idempotencyKey env s =
     (if \<not> enabled (sendgrid s) then (Inl (SendGridError ''SendGrid API is disabled''), s)
      else
        (case checkIdempotency (now_checkIdempotency env) idempotencyKey (sendgridLimiter s) of
           (cachedMessageId, rl) \<Rightarrow>
             let s1 = s\<lparr>sendgridLimiter := rl\<rparr> in
             (case cachedMessageId of
                Some messageId \<Rightarrow>
                  if messageId \<noteq> []
                  then (Inr messageId,
                        s1\<lparr>effects := effects s1 @
                             [LoggedIdempotent idempotencyKey messageId, Slept 50]\<rparr>)
                  else sendEmail_uncached to body idempotencyKey env s1
              | None \<Rightarrow> sendEmail_uncached to body idempotencyKey env s1)))"

text \<open>\<^verbatim>\<open>resetApis\<close> and \<^verbatim>\<open>setApiConfig\<close> (for the \<^verbatim>\<open>sendgrid\<close> entry).\<close>

definition resetApis :: "api_state \<Rightarrow> api_state" where
  "resetApis s = s\<lparr>sendgridLimiter := reset (sendgridLimiter s)\<rparr>"

definition setApiConfig :: "sendgrid_config \<Rightarrow> api_state \<Rightarrow> api_state" where
  "setApiConfig config s = s\<lparr>sendgrid := config\<rparr>"

section \<open>Sequences of calls to the mail API\<close>

text \<open>
  What the rest of the program can do to the mail API, one call after the other:
  send, replace the configuration, reset the limiter. A send is taken as one step:
  in a sequence, each call has returned or thrown before the next one begins, and no
  send begun before the sequence is still waiting to resume.
\<close>

datatype api_call =
    CallSendEmail string string string send_env
  | CallSetApiConfig sendgrid_config
  | CallResetApis

fun run_call :: "api_call \<Rightarrow> api_state \<Rightarrow> api_state" where
  "run_call (CallSendEmail to body key env) s = snd (sendEmail to body key env s)"
| "run_call (CallSetApiConfig config) s = setApiConfig config s"
| "run_call CallResetApis s = resetApis s"



text \<open>
  The states the mail API can be in: the state the module starts with, and every state
  a call leads to from there. For sends that overlap, the two halves of a send are
  steps of their own: the idempotency check that finds nothing, before the sleep, and
  the rest of the send, after it.
\<close>

inductive reachable_api :: "api_state \<Rightarrow> bool" where
  start: "reachable_api
     \<lparr>sendgrid = \<lparr>rateLimitPerSecond = 500, errorRate = 0.05, latencyMs = 200, enabled = True\<rparr>,
      sendgridLimiter = \<lparr>requests = [], idempotencyCache = []\<rparr>,
      effects = []\<rparr>"
| call: "reachable_api s \<Longrightarrow> reachable_api (run_call c s)"
| suspended: "reachable_api s \<Longrightarrow>
     reachable_api (s\<lparr>sendgridLimiter := snd (checkIdempotency now key (sendgridLimiter s))\<rparr>)"
| resumed: "reachable_api s \<Longrightarrow> reachable_api (snd (sendEmail_uncached to body key env s))"

section \<open>Store: the transaction wrapper\<close>

text \<open>
  The SQLite connection as far as transactions go. The process has one connection
  (\<^verbatim>\<open>getDatabase\<close>), so every statement sees \<open>contents\<close>, written or not yet
  committed; \<open>rollback_to\<close> holds the contents to return to while a transaction is
  open. \<open>'st\<close> is the type of what the tables hold.
\<close>

record 'st connection =
  contents :: 'st
  rollback_to :: "'st option"

text \<open>The error the driver throws for a statement SQLite refuses.\<close>

definition SqliteError :: "string \<Rightarrow> string \<Rightarrow> js_error" where
  "SqliteError msg code = JsError ''SqliteError'' msg (Some code)"

text \<open>
  The statements \<^verbatim>\<open>BEGIN\<close>, \<^verbatim>\<open>COMMIT\<close> and \<^verbatim>\<open>ROLLBACK\<close> as SQLite runs them:
  \<^verbatim>\<open>BEGIN\<close> fails inside a transaction, the other two outside one.
\<close>

definition sql_begin :: "'st connection \<Rightarrow> js_error + 'st connection" where
  "sql_begin c =
     (case rollback_to c of
        Some old \<Rightarrow> Inl (SqliteError ''cannot start a transaction within a transaction'' ''SQLITE_ERROR'')
      | None \<Rightarrow> Inr (c\<lparr>rollback_to := Some (contents c)\<rparr>))"

definition sql_commit :: "'st connection \<Rightarrow> js_error + 'st connection" where
  "sql_commit c =
     (case rollback_to c of
        Some old \<Rightarrow> Inr (c\<lparr>rollback_to := None\<rparr>)
      | None \<Rightarrow> Inl (SqliteError ''cannot commit - no transaction is active'' ''SQLITE_ERROR''))"

definition sql_rollback :: "'st connection \<Rightarrow> js_error + 'st connection" where
  "sql_rollback c =
     (case rollback_to c of
        Some old \<Rightarrow> Inr (c\<lparr>contents := old, rollback_to := None\<rparr>)
      | None \<Rightarrow> Inl (SqliteError ''cannot rollback - no transaction is active'' ''SQLITE_ERROR''))"

text \<open>
  The module state of \<^verbatim>\<open>lib/database\<close>: the connection and the global
  \<^verbatim>\<open>transactionDepth\<close>. A callback is a function of this state: it can write, call
  \<^verbatim>\<open>transaction\<close> again, and return or throw.
\<close>

record 'st store =
  db :: "'st connection"
  transactionDepth :: int

type_synonym ('st, 'a) callback = "'st store \<Rightarrow> (js_error + 'a) \<times> 'st store"

text \<open>
  \<^verbatim>\<open>transaction\<close>, in the three parts its control flow has. Before the callback:
  \<^verbatim>\<open>BEGIN\<close> at depth 0 (outside the \<^verbatim>\<open>try\<close>: if it throws, the depth is untouched),
  then the depth goes up.
\<close>

definition transaction_enter :: "'st store \<Rightarrow> js_error + 'st store" where
  "transaction_enter w =
     (if transactionDepth w = 0
      then (case sql_begin (db w) of
              Inl e \<Rightarrow> Inl e
            | Inr c \<Rightarrow> Inr (w\<lparr>db := c, transactionDepth := transactionDepth w + 1\<rparr>))
      else Inr (w\<lparr>transactionDepth := transactionDepth w + 1\<rparr>))"

text \<open>The \<^verbatim>\<open>catch\<close> block; a failing \<^verbatim>\<open>ROLLBACK\<close> replaces the error.\<close>

definition transaction_catch :: "js_error \<Rightarrow> 'st store \<Rightarrow> (js_error + 'a) \<times> 'st store" where
  "transaction_catch error w =
     (let w1 = w\<lparr>transactionDepth := transactionDepth w - 1\<rparr> in
      if transactionDepth w1 = 0
      then (case sql_rollback (db w1) of
              Inl e \<Rightarrow> (Inl e, w1)
            | Inr c \<Rightarrow> (Inl error, w1\<lparr>db := c\<rparr>))
      else (Inl error, w1))"

text \<open>
  After the callback. A \<^verbatim>\<open>COMMIT\<close> that throws is inside the \<^verbatim>\<open>try\<close>, so the
  \<^verbatim>\<open>catch\<close> block runs after the depth has already gone down once.
\<close>

definition transaction_exit :: "js_error + 'a \<Rightarrow> 'st store \<Rightarrow> (js_error + 'a) \<times> 'st store" where
  "transaction_exit r w =
     (case r of
        Inr result \<Rightarrow>
          (let w1 = w\<lparr>transactionDepth := transactionDepth w - 1\<rparr> in
           if transactionDepth w1 = 0
           then (case sql_commit (db w1) of
                   Inl e \<Rightarrow> transaction_catch e w1
                 | Inr c \<Rightarrow> (Inr result, w1\<lparr>db := c\<rparr>))
           else (Inr result, w1))
      | Inl error \<Rightarrow> transaction_catch error w)"

definition transaction :: "('st, 'a) callback \<Rightarrow> 'st store \<Rightarrow> (js_error + 'a) \<times> 'st store" where
  "transaction callback w =
     (case transaction_enter w of
        Inl e \<Rightarrow> (Inl e, w)
      | Inr w1 \<Rightarrow> (case callback w1 of (r, w2) \<Rightarrow> transaction_exit r w2))"

text \<open>A statement that changes the tables, run on the connection.\<close>

definition db_write :: "('st \<Rightarrow> 'st) \<Rightarrow> 'st store \<Rightarrow> 'st store" where
  "db_write f w = w\<lparr>db := (db w)\<lparr>contents := f (contents (db w))\<rparr>\<rparr>"

section \<open>Data model\<close>

text \<open>
  The enumerations and interfaces of \<^verbatim>\<open>lib/orm\<close>. \<^verbatim>\<open>JobStepStatus\<close> has members
  named like those of \<^verbatim>\<open>JobStatus\<close>; they carry the prefix "Step" here. Dates are
  milliseconds, \<^verbatim>\<open>null\<close> is \<open>None\<close>, and the JSON of \<^verbatim>\<open>outputData\<close> is kept as the text
  the column stores.
\<close>

datatype JobStatus = Pending | Processing | Failed | Completed

datatype JobStepName = SendEmail | Analyze | TakeAction

datatype JobStepStatus = StepPending | StepInProgress | StepCompleted | StepFailed

record Job =
  job_id :: int
  campaignId :: int
  customerEmail :: string
  currentStep :: JobStepName
  status :: JobStatus
  workerId :: "string option"
  retryCount :: int
  createdAt :: int
  startedAt :: "int option"
  completedAt :: "int option"
  errorMessage :: "string option"
  scheduledFor :: "int option"
  lastHeartbeat :: "int option"

record JobStep =
  step_id :: int
  jobId :: int
  stepName :: JobStepName
  step_status :: JobStepStatus
  outputData :: "string option"
  step_startedAt :: "int option"
  step_completedAt :: "int option"

section \<open>Store: the table \<^verbatim>\<open>job_steps\<close> and \<^verbatim>\<open>executeSql\<close>\<close>

text \<open>
  The table as \<^verbatim>\<open>setup.ts\<close> creates it:
  \<^verbatim>\<open>id INTEGER PRIMARY KEY AUTOINCREMENT\<close>, the columns \<^verbatim>\<open>job_id\<close>, \<^verbatim>\<open>step_name\<close> and
  \<^verbatim>\<open>status\<close> \<^verbatim>\<open>NOT NULL\<close>, \<^verbatim>\<open>FOREIGN KEY (job_id) REFERENCES jobs(id)\<close>,
  \<^verbatim>\<open>UNIQUE(job_id, step_name)\<close>. Its state is the rows, kept in the order of their ids,
  the largest row id handed out so far (the \<^verbatim>\<open>sqlite_sequence\<close> entry that
  \<^verbatim>\<open>AUTOINCREMENT\<close> keeps) and the row id of the last insert on the connection.
\<close>

record job_steps_table =
  step_rows :: "JobStep list"
  sequence :: int
  last_insert_rowid :: int

















text \<open>\<^verbatim>\<open>String.prototype.includes\<close>.\<close>

fun str_includes :: "string \<Rightarrow> string \<Rightarrow> bool" where
  "str_includes [] pat = (pat = [])"
| "str_includes (c # cs) pat = (prefix pat (c # cs) \<or> str_includes cs pat)"




section \<open>The candidate module\<close>

text \<open>
  \<^verbatim>\<open>candidate/solution\<close> (\<^verbatim>\<open>src/unnamed/part_001\<close> and \<^verbatim>\<open>part_002\<close>): the functions
  the test harness and the scenarios import. In the repository the body of each is
  the one statement \<^verbatim>\<open>throw new Error('Not implemented')\<close>. They are typed over the
  state their documentation has them work on: the jobs, the step ledger, the mail
  API, and the calls made so far to the three collaborators the module imports
  (\<^verbatim>\<open>sendEmail\<close> with its address, body and idempotency key, \<^verbatim>\<open>fetchSalesforceData\<close> with
  its query, \<^verbatim>\<open>analyzeSentiment\<close> with its text). The last two keep no state of their
  own, so the record of the calls is what tells whether they were invoked.
\<close>

datatype collaborator_call =
    SendEmailCall string string string
  | FetchSalesforceDataCall string
  | AnalyzeSentimentCall string

record system =
  jobs :: "Job list"
  job_steps :: job_steps_table
  mail :: api_state
  calls :: "collaborator_call list"

definition claimNextJob :: "system \<Rightarrow> (js_error + Job option) \<times> system" where
  "claimNextJob s = (Inl (Error ''Not implemented''), s)"

definition createCampaignJobs ::
  "int \<Rightarrow> string list \<Rightarrow> system \<Rightarrow> (js_error + int) \<times> system" where
  "createCampaignJobs campaign_id customerEmails s = (Inl (Error ''Not implemented''), s)"

definition sendEmailStep :: "Job \<Rightarrow> system \<Rightarrow> (js_error + bool) \<times> system" where
  "sendEmailStep job s = (Inl (Error ''Not implemented''), s)"

definition processJob :: "Job \<Rightarrow> system \<Rightarrow> (js_error + unit) \<times> system" where
  "processJob job s = (Inl (Error ''Not implemented''), s)"

definition recoverStalledJobs :: "int \<Rightarrow> system \<Rightarrow> (js_error + int) \<times> system" where
  "recoverStalledJobs timeoutSeconds s = (Inl (Error ''Not implemented''), s)"

text \<open>
  \<^verbatim>\<open>Promise.all\<close> over \<open>n\<close> calls of \<^verbatim>\<open>claimNextJob\<close>, as the concurrency tests make
  them: each call runs until its first \<^verbatim>\<open>await\<close> before the next one starts. The body
  has no \<^verbatim>\<open>await\<close>, so the calls run one after the other, and there is no other
  interleaving.
\<close>

fun claim_all :: "nat \<Rightarrow> system \<Rightarrow> (js_error + Job option) list \<times> system" where
  "claim_all 0 s = ([], s)"
| "claim_all (Suc n) s =
     (case claimNextJob s of
        (r, s1) \<Rightarrow> (case claim_all n s1 of (rs, s2) \<Rightarrow> (r # rs, s2)))"

text \<open>A call that returned a job, and the jobs that are pending.\<close>

fun returned_job :: "js_error + Job option \<Rightarrow> bool" where
  "returned_job (Inr (Some job)) = True"
| "returned_job (Inr None) = False"
| "returned_job (Inl e) = False"

definition pending_jobs :: "system \<Rightarrow> Job list" where
  "pending_jobs s = filter (\<lambda>job. status job = Pending) (jobs s)"

section \<open>Example inputs\<close>

text \<open>The configuration the module starts with, and the state before any call.\<close>

definition apiConfig_sendgrid :: sendgrid_config where
  "apiConfig_sendgrid =
     \<lparr>rateLimitPerSecond = 500, errorRate = 0.05, latencyMs = 200, enabled = True\<rparr>"

definition initial_api_state :: api_state where
  "initial_api_state =
     \<lparr>sendgrid = apiConfig_sendgrid,
      sendgridLimiter = \<lparr>requests = [], idempotencyCache = []\<rparr>,
      effects = []\<rparr>"

text \<open>A call that starts at time \<open>t\<close>, resumes after the latency, and draws \<open>r\<close>.\<close>

definition env_at :: "int \<Rightarrow> real \<Rightarrow> send_env" where
  "env_at t r =
     \<lparr>now_checkIdempotency = t, now_checkRateLimit = t + 200,
      now_generateMessageId = t + 200, now_cacheIdempotency = t + 200,
      rand = r, id_suffix = ''k3j9x0q2a''\<rparr>"

text \<open>The state after one successful send with key "7-send_email" at time 1000.\<close>

definition sent_once :: api_state where
  "sent_once =
     \<lparr>sendgrid = apiConfig_sendgrid,
      sendgridLimiter =
        \<lparr>requests = [1200],
         idempotencyCache = [(''7-send_email'', (''msg_1200_k3j9x0q2a'', 1200))]\<rparr>,
      effects = [Slept 200, LoggedSent ''test1@example.com'' ''msg_1200_k3j9x0q2a'']\<rparr>"

text \<open>
  The same state with the rate limit lowered to one request per second, so that the
  request at 1200 exhausts it until 2200.
\<close>

definition sent_once_busy :: api_state where
  "sent_once_busy = setApiConfig (apiConfig_sendgrid\<lparr>rateLimitPerSecond := 1\<rparr>) sent_once"

text \<open>The same state with the mail API switched off.\<close>

definition sent_once_disabled :: api_state where
  "sent_once_disabled = setApiConfig (apiConfig_sendgrid\<lparr>enabled := False\<rparr>) sent_once"


text \<open>
  Examples for the transaction wrapper. The tables hold a list of rows; the store
  starts empty, outside any transaction.
\<close>

definition idle_store :: "string list store" where
  "idle_store = \<lparr>db = \<lparr>contents = [], rollback_to = None\<rparr>, transactionDepth = 0\<rparr>"

text \<open>A callback that inserts a row and returns, and one that inserts a row and throws.\<close>

definition insert_then_return :: "(string list, nat) callback" where
  "insert_then_return w = (Inr 7, db_write (\<lambda>rows. rows @ [''job 1'']) w)"

definition insert_then_throw :: "(string list, nat) callback" where
  "insert_then_throw w = (Inl (Error ''boom''), db_write (\<lambda>rows. rows @ [''job 2'']) w)"

text \<open>
  A callback that runs \<open>insert_then_throw\<close> in a transaction of its own, catches what
  it throws, and returns.
\<close>

definition catching_callback :: "(string list, nat) callback" where
  "catching_callback w =
     (case transaction insert_then_throw w of
        (Inl e, w') \<Rightarrow> (Inr 0, w')
      | (Inr v, w') \<Rightarrow> (Inr v, w'))"

text \<open>Examples for the table \<^verbatim>\<open>job_steps\<close>: the ledger row of a sent email.\<close>

definition empty_job_steps :: job_steps_table where
  "empty_job_steps = \<lparr>step_rows = [], sequence = 0, last_insert_rowid = 0\<rparr>"



text \<open>
  The state \<^verbatim>\<open>setupTestData\<close> of the test harness leaves: ten pending jobs of campaign
  1 at the first step, no ledger rows, the mail API reset.
\<close>

definition test_job :: "int \<Rightarrow> Job" where
  "test_job i =
     \<lparr>job_id = i, campaignId = 1, customerEmail = ''test'' @ toString i @ ''@example.com'',
      currentStep = SendEmail, status = Pending, workerId = None, retryCount = 0,
      createdAt = 1000, startedAt = None, completedAt = None, errorMessage = None,
      scheduledFor = None, lastHeartbeat = None\<rparr>"

definition test_system :: system where
  "test_system =
     \<lparr>jobs = map test_job [1, 2, 3, 4, 5, 6, 7, 8, 9, 10],
      job_steps = empty_job_steps,
      mail = initial_api_state,
      calls = []\<rparr>"

text \<open>
  A job that a worker claimed at time 1000 and never touched again, looked at 1000
  seconds later.
\<close>

definition stalled_job :: Job where
  "stalled_job =
     (test_job 1)\<lparr>status := Processing, workerId := Some ''worker-1'',
       startedAt := Some 1000, lastHeartbeat := Some 1000\<rparr>"

definition stalled_system :: system where
  "stalled_system = test_system\<lparr>jobs := [stalled_job]\<rparr>"

section \<open>Properties of the failure classification\<close>

text \<open>
  C6 (counterexample). The claim ends with "every external-collaborator failure falls
  into exactly one of the two classes". The generic \<^verbatim>\<open>SendGridError\<close> that
  \<^verbatim>\<open>sendEmail\<close> throws for a simulated internal error is in neither class.
\<close>

theorem classification_not_exhaustive_counterexample:
  "\<not> isTransientError (SendGridError ''SendGrid internal error'') \<and>
   \<not> isPermanentError (SendGridError ''SendGrid internal error'')"
  by (simp add: isTransientError_def isPermanentError_def SendGridError_def)

text \<open>
  C6 (amended). An error is transient exactly when its name is "RateLimitError" or
  "TimeoutError", and permanent exactly when its name is "InvalidEmailError"; the three
  classes of the mail API that the claim names land where it says, for every message;
  no error is both transient and permanent; and the remaining error classes of the
  external APIs (\<^verbatim>\<open>SendGridError\<close>, \<^verbatim>\<open>SalesforceError\<close>, \<^verbatim>\<open>SentimentAPIError\<close>) are
  in neither class.
\<close>

theorem failure_classification:
  "(isTransientError e \<longleftrightarrow> err_name e \<in> {''RateLimitError'', ''TimeoutError''}) \<and>
   (isPermanentError e \<longleftrightarrow> err_name e = ''InvalidEmailError'') \<and>
   isTransientError (RateLimitError m) \<and> isTransientError (TimeoutError m) \<and>
   isPermanentError (InvalidEmailError m) \<and>
   \<not> (isTransientError e \<and> isPermanentError e) \<and>
   \<not> isTransientError (SendGridError m) \<and> \<not> isPermanentError (SendGridError m) \<and>
   \<not> isTransientError (SalesforceError m) \<and> \<not> isPermanentError (SalesforceError m) \<and>
   \<not> isTransientError (SentimentAPIError m) \<and> \<not> isPermanentError (SentimentAPIError m)"
  by (auto simp add: isTransientError_def isPermanentError_def RateLimitError_def
      TimeoutError_def InvalidEmailError_def SendGridError_def SalesforceError_def
      SentimentAPIError_def)

section \<open>Properties of the mock mail API\<close>

lemmas sendEmail_defs =
  sendEmail_def sendEmail_uncached_def checkIdempotency_def checkRateLimit_def
  cacheIdempotency_def generateMessageId_def toString_def digits.simps Let_def
  setApiConfig_def resetApis_def reset_def

lemmas example_defs =
  initial_api_state_def apiConfig_sendgrid_def env_at_def sent_once_def

lemma checkIdempotency_hit:
  "map_of (idempotencyCache rl) key = Some (m, ts) \<Longrightarrow> now - ts < 86400000 \<Longrightarrow>
   checkIdempotency now key rl = (Some m, rl)"
  by (simp add: checkIdempotency_def)

lemma sendEmail_cached:
  assumes "enabled (sendgrid s)"
    and "map_of (idempotencyCache (sendgridLimiter s)) key = Some (m, ts)"
    and "m \<noteq> []"
    and "now_checkIdempotency env - ts < 86400000"
  shows "sendEmail to body key env s =
     (Inr m, s\<lparr>effects := effects s @ [LoggedIdempotent key m, Slept 50]\<rparr>)"
  using assms by (simp add: sendEmail_def checkIdempotency_hit)

lemma sendEmail_disabled:
  "\<not> enabled (sendgrid s) \<Longrightarrow>
   sendEmail to body key env s = (Inl (SendGridError ''SendGrid API is disabled''), s)"
  by (simp add: sendEmail_def)

lemma first_send:
  "sendEmail ''test1@example.com'' ''Hello'' ''7-send_email'' (env_at 1000 0.5)
     initial_api_state = (Inr ''msg_1200_k3j9x0q2a'', sent_once)"
  by (simp add: sendEmail_defs example_defs)

lemma cache_checkRateLimit:
  "idempotencyCache (snd (checkRateLimit now limit rl)) = idempotencyCache rl"
  by (simp add: checkRateLimit_def Let_def)

lemma cache_checkIdempotency_other:
  "key \<noteq> k \<Longrightarrow>
   map_of (idempotencyCache (snd (checkIdempotency now key rl))) k =
   map_of (idempotencyCache rl) k"
  by (simp add: checkIdempotency_def delete_conv' split: option.split prod.split)

lemma cache_cacheIdempotency_other:
  "key \<noteq> k \<Longrightarrow>
   map_of (idempotencyCache (cacheIdempotency now key m rl)) k = map_of (idempotencyCache rl) k"
  by (simp add: cacheIdempotency_def update_conv')

lemma cache_uncached_other:
  assumes "key \<noteq> k"
  shows "map_of (idempotencyCache (sendgridLimiter (snd (sendEmail_uncached to body key env s)))) k =
   map_of (idempotencyCache (sendgridLimiter s)) k"
proof -
  obtain allowed rl where cr: "checkRateLimit (now_checkRateLimit env)
      (rateLimitPerSecond (sendgrid s)) (sendgridLimiter s) = (allowed, rl)"
    by (cases "checkRateLimit (now_checkRateLimit env)
      (rateLimitPerSecond (sendgrid s)) (sendgridLimiter s)")
  have rl: "idempotencyCache rl = idempotencyCache (sendgridLimiter s)"
    using cache_checkRateLimit [of "now_checkRateLimit env" "rateLimitPerSecond (sendgrid s)"
        "sendgridLimiter s"] cr by simp
  show ?thesis
    using assms by (simp add: sendEmail_uncached_def Let_def cr rl cache_cacheIdempotency_other)
qed

lemma cache_other_key:
  assumes "key \<noteq> k"
  shows "map_of (idempotencyCache (sendgridLimiter (snd (sendEmail to body key env s)))) k =
   map_of (idempotencyCache (sendgridLimiter s)) k"
proof -
  obtain c rl where ci:
    "checkIdempotency (now_checkIdempotency env) key (sendgridLimiter s) = (c, rl)"
    by (cases "checkIdempotency (now_checkIdempotency env) key (sendgridLimiter s)")
  have rl: "map_of (idempotencyCache rl) k = map_of (idempotencyCache (sendgridLimiter s)) k"
    using cache_checkIdempotency_other [OF assms, of "now_checkIdempotency env" "sendgridLimiter s"]
      ci by simp
  show ?thesis
    using assms by (simp add: sendEmail_def Let_def ci rl cache_uncached_other split: option.split)
qed

text \<open>A send that returns a message id leaves that id cached under its key.\<close>

lemma success_cached:
  "sendEmail to body k env s = (Inr m, s1) \<Longrightarrow>
   \<exists>ts. map_of (idempotencyCache (sendgridLimiter s1)) k = Some (m, ts) \<and> m \<noteq> []"
  by (auto simp add: sendEmail_def sendEmail_uncached_def checkIdempotency_def checkRateLimit_def
      cacheIdempotency_def Let_def update_conv' delete_conv' generateMessageId_def
      split: prod.splits option.splits if_splits)


text \<open>Every message id in the cache was generated by a send, so none is empty.\<close>

lemma cached_ids_step:
  assumes "\<forall>k m ts. map_of (idempotencyCache (sendgridLimiter s)) k = Some (m, ts) \<longrightarrow> m \<noteq> []"
  shows "\<forall>k m ts. map_of (idempotencyCache (sendgridLimiter (run_call c s))) k = Some (m, ts)
           \<longrightarrow> m \<noteq> []"
proof (intro allI impI)
  fix k m ts
  assume hit: "map_of (idempotencyCache (sendgridLimiter (run_call c s))) k = Some (m, ts)"
  show "m \<noteq> []"
  proof (cases c)
    case (CallSendEmail to body key env)
    show ?thesis
    proof (cases "key = k")
      case True
      obtain r s1 where r: "sendEmail to body k env s = (r, s1)"
        by (cases "sendEmail to body k env s")
      show ?thesis
      proof (cases r)
        case (Inr m')
        from success_cached [of to body k env s m' s1] r Inr hit CallSendEmail True
        show ?thesis by auto
      next
        case (Inl e)
        have "map_of (idempotencyCache (sendgridLimiter s1)) k = Some (m, ts)"
          using hit CallSendEmail True r by simp
        moreover have "map_of (idempotencyCache (sendgridLimiter s1)) k = None \<or>
            map_of (idempotencyCache (sendgridLimiter s1)) k =
            map_of (idempotencyCache (sendgridLimiter s)) k"
          using r Inl
          by (auto simp add: sendEmail_def sendEmail_uncached_def checkIdempotency_def
              checkRateLimit_def Let_def delete_conv'
              split: prod.splits option.splits if_splits)
        ultimately have "map_of (idempotencyCache (sendgridLimiter s)) k = Some (m, ts)"
          by auto
        with assms show ?thesis by blast
      qed
    next
      case False
      with hit CallSendEmail
      have "map_of (idempotencyCache (sendgridLimiter s)) k = Some (m, ts)"
        by (simp add: cache_other_key)
      with assms show ?thesis by blast
    qed
  next
    case (CallSetApiConfig config)
    with hit have "map_of (idempotencyCache (sendgridLimiter s)) k = Some (m, ts)"
      by (simp add: setApiConfig_def)
    with assms show ?thesis by blast
  next
    case CallResetApis
    with hit show ?thesis by (simp add: resetApis_def reset_def)
  qed
qed

lemma cache_checkIdempotency_same:
  "map_of (idempotencyCache (snd (checkIdempotency now k rl))) k = None \<or>
   map_of (idempotencyCache (snd (checkIdempotency now k rl))) k = map_of (idempotencyCache rl) k"
  by (simp add: checkIdempotency_def delete_conv' split: option.split prod.split)

lemma cache_uncached_same:
  "map_of (idempotencyCache (sendgridLimiter (snd (sendEmail_uncached to body k env s)))) k =
     map_of (idempotencyCache (sendgridLimiter s)) k \<or>
   map_of (idempotencyCache (sendgridLimiter (snd (sendEmail_uncached to body k env s)))) k =
     Some (generateMessageId (now_generateMessageId env) (id_suffix env), now_cacheIdempotency env)"
proof -
  obtain allowed rl where cr: "checkRateLimit (now_checkRateLimit env)
      (rateLimitPerSecond (sendgrid s)) (sendgridLimiter s) = (allowed, rl)"
    by (cases "checkRateLimit (now_checkRateLimit env)
      (rateLimitPerSecond (sendgrid s)) (sendgridLimiter s)")
  have rl: "idempotencyCache rl = idempotencyCache (sendgridLimiter s)"
    using cache_checkRateLimit [of "now_checkRateLimit env" "rateLimitPerSecond (sendgrid s)"
        "sendgridLimiter s"] cr by simp
  show ?thesis
    by (simp add: sendEmail_uncached_def Let_def cr rl cacheIdempotency_def update_conv')
qed

lemma generateMessageId_nonempty: "generateMessageId now random_part \<noteq> []"
  by (simp add: generateMessageId_def)

lemma cached_ids_suspended:
  assumes "\<forall>k m ts. map_of (idempotencyCache (sendgridLimiter s)) k = Some (m, ts) \<longrightarrow> m \<noteq> []"
  shows "\<forall>k m ts. map_of (idempotencyCache (sendgridLimiter
           (s\<lparr>sendgridLimiter := snd (checkIdempotency now key (sendgridLimiter s))\<rparr>))) k =
           Some (m, ts) \<longrightarrow> m \<noteq> []"
proof (intro allI impI)
  fix k m ts
  assume hit: "map_of (idempotencyCache (sendgridLimiter
           (s\<lparr>sendgridLimiter := snd (checkIdempotency now key (sendgridLimiter s))\<rparr>))) k =
           Some (m, ts)"
  have "map_of (idempotencyCache (sendgridLimiter s)) k = Some (m, ts)"
  proof (cases "key = k")
    case True
    with hit cache_checkIdempotency_same [of now k "sendgridLimiter s"] show ?thesis by auto
  next
    case False
    with hit cache_checkIdempotency_other [of key k now "sendgridLimiter s"] show ?thesis by simp
  qed
  with assms show "m \<noteq> []" by blast
qed

lemma cached_ids_resumed:
  assumes "\<forall>k m ts. map_of (idempotencyCache (sendgridLimiter s)) k = Some (m, ts) \<longrightarrow> m \<noteq> []"
  shows "\<forall>k m ts. map_of (idempotencyCache (sendgridLimiter
           (snd (sendEmail_uncached to body key env s)))) k = Some (m, ts) \<longrightarrow> m \<noteq> []"
proof (intro allI impI)
  fix k m ts
  assume hit: "map_of (idempotencyCache (sendgridLimiter
           (snd (sendEmail_uncached to body key env s)))) k = Some (m, ts)"
  show "m \<noteq> []"
  proof (cases "key = k")
    case True
    from cache_uncached_same [of to body k env s] show ?thesis
    proof
      assume "map_of (idempotencyCache (sendgridLimiter (snd (sendEmail_uncached to body k env s)))) k =
        map_of (idempotencyCache (sendgridLimiter s)) k"
      with hit True have "map_of (idempotencyCache (sendgridLimiter s)) k = Some (m, ts)" by simp
      with assms show ?thesis by blast
    next
      assume "map_of (idempotencyCache (sendgridLimiter (snd (sendEmail_uncached to body k env s)))) k =
        Some (generateMessageId (now_generateMessageId env) (id_suffix env), now_cacheIdempotency env)"
      with hit True have "m = generateMessageId (now_generateMessageId env) (id_suffix env)"
        by simp
      then show ?thesis by (simp add: generateMessageId_nonempty)
    qed
  next
    case False
    with hit have "map_of (idempotencyCache (sendgridLimiter s)) k = Some (m, ts)"
      by (simp add: cache_uncached_other)
    with assms show ?thesis by blast
  qed
qed

lemma reachable_cached_ids:
  "reachable_api s \<Longrightarrow>
   \<forall>k m ts. map_of (idempotencyCache (sendgridLimiter s)) k = Some (m, ts) \<longrightarrow> m \<noteq> []"
proof (induction rule: reachable_api.induct)
  case start
  show ?case by simp
next
  case (call s c)
  from call.IH show ?case by (rule cached_ids_step)
next
  case (suspended s now key)
  from suspended.IH show ?case by (rule cached_ids_suspended)
next
  case (resumed s to body key env)
  from resumed.IH show ?case by (rule cached_ids_resumed)
qed

lemma reachable_initial: "reachable_api initial_api_state"
  unfolding initial_api_state_def apiConfig_sendgrid_def by (rule reachable_api.start)

lemma reachable_sent_once: "reachable_api sent_once"
proof -
  have "reachable_api (run_call (CallSendEmail ''test1@example.com'' ''Hello'' ''7-send_email''
      (env_at 1000 0.5)) initial_api_state)"
    by (rule reachable_api.call [OF reachable_initial])
  with first_send show ?thesis by simp
qed

lemma reachable_sent_once_busy: "reachable_api sent_once_busy"
  unfolding sent_once_busy_def
  using reachable_api.call [OF reachable_sent_once,
      of "CallSetApiConfig (apiConfig_sendgrid\<lparr>rateLimitPerSecond := 1\<rparr>)"]
  by simp

lemma reachable_sent_once_disabled: "reachable_api sent_once_disabled"
  unfolding sent_once_disabled_def
  using reachable_api.call [OF reachable_sent_once,
      of "CallSetApiConfig (apiConfig_sendgrid\<lparr>enabled := False\<rparr>)"]
  by simp

text \<open>
  Two sends with one key that overlap: both pass the idempotency check before either
  has cached its result (the check and the caching are separated by the
  \<^verbatim>\<open>await sleep\<close>), both deliver, and the second overwrites the cached id of the first.
  The replay property C7 below is about sends that do not overlap.
\<close>

lemma overlapping_sends_deliver_twice:
  "fst (checkIdempotency 1000 ''7-send_email'' (sendgridLimiter initial_api_state)) = None \<and>
   fst (checkIdempotency 1050 ''7-send_email'' (sendgridLimiter initial_api_state)) = None \<and>
   sendEmail_uncached ''test1@example.com'' ''Hello'' ''7-send_email'' (env_at 1000 0.5)
     initial_api_state = (Inr ''msg_1200_k3j9x0q2a'', sent_once) \<and>
   fst (sendEmail_uncached ''test1@example.com'' ''Hello'' ''7-send_email'' (env_at 1050 0.5)
     sent_once) = Inr ''msg_1250_k3j9x0q2a'' \<and>
   fst (sendEmail ''test1@example.com'' ''Hello'' ''7-send_email'' (env_at 5000 0.5)
     (snd (sendEmail_uncached ''test1@example.com'' ''Hello'' ''7-send_email'' (env_at 1050 0.5)
     sent_once))) = Inr ''msg_1250_k3j9x0q2a''"
  by (simp add: sendEmail_defs example_defs)




text \<open>
  C8 (counterexample). With the initial configuration and a random draw of 0.04
  (between 0.6 and 1 times the error rate 0.05), \<^verbatim>\<open>sendEmail\<close> fails with the generic
  \<^verbatim>\<open>SendGridError\<close>, which is none of the three kinds of the claim.
\<close>

theorem sendEmail_error_kinds_counterexample:
  "fst (sendEmail ''test1@example.com'' ''Hello'' ''7-send_email'' (env_at 1000 0.04)
     initial_api_state) = Inl (SendGridError ''SendGrid internal error'') \<and>
   err_name (SendGridError ''SendGrid internal error'') \<notin>
     {''RateLimitError'', ''InvalidEmailError'', ''TimeoutError''}"
  by (simp add: sendEmail_defs example_defs SendGridError_def)

text \<open>Each of the four kinds of error that \<^verbatim>\<open>sendEmail\<close> throws does occur.\<close>

lemma sendEmail_each_kind_occurs:
  "fst (sendEmail ''test1@example.com'' ''Hello'' ''7-send_email'' (env_at 1000 0.01)
     initial_api_state) = Inl (TimeoutError ''SendGrid request timeout'') \<and>
   fst (sendEmail ''test1@example.com'' ''Hello'' ''7-send_email'' (env_at 1000 0.02)
     initial_api_state) = Inl (RateLimitError ''SendGrid rate limit exceeded'') \<and>
   fst (sendEmail ''invalid-email'' ''Hello'' ''7-send_email'' (env_at 1000 0.5)
     initial_api_state) = Inl (InvalidEmailError ''Invalid email format: invalid-email'') \<and>
   fst (sendEmail ''test1@example.com'' ''Hello'' ''7-send_email'' (env_at 1000 0.04)
     initial_api_state) = Inl (SendGridError ''SendGrid internal error'')"
  by (simp add: sendEmail_defs example_defs)

text \<open>
  C8 (amended). Every call of \<^verbatim>\<open>sendEmail\<close> either returns a message id or fails with
  an error of one of four kinds: \<^verbatim>\<open>RateLimitError\<close>, \<^verbatim>\<open>InvalidEmailError\<close>,
  \<^verbatim>\<open>TimeoutError\<close>, or the generic \<^verbatim>\<open>SendGridError\<close> (the API is disabled, or a
  simulated internal error); and each of the four is thrown by some call.
\<close>

theorem sendEmail_error_kinds:
  "((\<exists>m. fst (sendEmail to body key env s) = Inr m) \<or>
    (\<exists>e. fst (sendEmail to body key env s) = Inl e \<and>
         err_name e \<in>
           {''RateLimitError'', ''InvalidEmailError'', ''TimeoutError'', ''SendGridError''})) \<and>
   (\<exists>to body key env s. fst (sendEmail to body key env s) =
      Inl (RateLimitError ''SendGrid rate limit exceeded'')) \<and>
   (\<exists>to body key env s. fst (sendEmail to body key env s) =
      Inl (InvalidEmailError (''Invalid email format: '' @ to))) \<and>
   (\<exists>to body key env s. fst (sendEmail to body key env s) =
      Inl (TimeoutError ''SendGrid request timeout'')) \<and>
   (\<exists>to body key env s. fst (sendEmail to body key env s) =
      Inl (SendGridError ''SendGrid internal error''))"
proof -
  have uncached: "\<And>s. (\<exists>m. fst (sendEmail_uncached to body key env s) = Inr m) \<or>
   (\<exists>e. fst (sendEmail_uncached to body key env s) = Inl e \<and>
        err_name e \<in>
          {''RateLimitError'', ''InvalidEmailError'', ''TimeoutError'', ''SendGridError''})"
    by (simp add: sendEmail_uncached_def Let_def RateLimitError_def InvalidEmailError_def
      TimeoutError_def SendGridError_def split: prod.split)
  have kinds: "(\<exists>m. fst (sendEmail to body key env s) = Inr m) \<or>
    (\<exists>e. fst (sendEmail to body key env s) = Inl e \<and>
         err_name e \<in>
           {''RateLimitError'', ''InvalidEmailError'', ''TimeoutError'', ''SendGridError''})"
    using uncached
    by (simp add: sendEmail_def Let_def SendGridError_def split: prod.split option.split)
  have invalid: "fst (sendEmail ''invalid-email'' ''Hello'' ''7-send_email'' (env_at 1000 0.5)
     initial_api_state) = Inl (InvalidEmailError (''Invalid email format: '' @ ''invalid-email''))"
    using sendEmail_each_kind_occurs by simp
  from kinds sendEmail_each_kind_occurs invalid show ?thesis by blast
qed

text \<open>
  C10 (counterexample). The key "7-send_email" was cached by a successful send 100 ms
  ago, but the API has been disabled since: the call does not return the cached id,
  it fails with \<^verbatim>\<open>SendGridError\<close>. The check of \<^verbatim>\<open>apiConfig.sendgrid.enabled\<close> comes
  before the idempotency check.
\<close>

theorem cached_key_disabled_counterexample:
  "map_of (idempotencyCache (sendgridLimiter sent_once_disabled)) ''7-send_email'' =
     Some (''msg_1200_k3j9x0q2a'', 1200) \<and>
   now_checkIdempotency (env_at 1300 0.5) - 1200 < 24 * 60 * 60 * 1000 \<and>
   sendEmail ''test1@example.com'' ''Hello'' ''7-send_email'' (env_at 1300 0.5)
     sent_once_disabled =
     (Inl (SendGridError ''SendGrid API is disabled''), sent_once_disabled)"
  by (simp add: sendEmail_defs example_defs sent_once_disabled_def)

text \<open>
  C10 (amended). While the mail API is enabled, a cached idempotency key short-circuits
  \<^verbatim>\<open>sendEmail\<close> before address validation, rate limiting and error injection: in every
  state the API reaches (by sends that overlap or not), for every address, body,
  random draw and rate-limit log, if the key is cached with a time less than 24 hours
  before the clock the call reads, the call returns the cached message id, having
  only printed the "idempotent request" line and slept 50 ms; the cache and the
  rate-limit log are unchanged. While the API is disabled, the call with such a key
  throws the \<^verbatim>\<open>SendGridError\<close> "SendGrid API is disabled" instead of returning
  the cached message id, and changes nothing.
\<close>

theorem cached_key_short_circuits:
  assumes "reachable_api s"
    and "map_of (idempotencyCache (sendgridLimiter s)) key = Some (m, ts)"
    and "now_checkIdempotency env - ts < 24 * 60 * 60 * 1000"
  shows "(enabled (sendgrid s) \<longrightarrow>
      sendEmail to body key env s =
        (Inr m, s\<lparr>effects := effects s @ [LoggedIdempotent key m, Slept 50]\<rparr>)) \<and>
     (\<not> enabled (sendgrid s) \<longrightarrow>
      sendEmail to body key env s = (Inl (SendGridError ''SendGrid API is disabled''), s))"
proof -
  have "m \<noteq> []" using reachable_cached_ids [OF assms(1)] assms(2) by blast
  with assms show ?thesis by (simp add: sendEmail_cached sendEmail_disabled)
qed

text \<open>
  Witness for C10: the cached key is replayed for an address that does not validate,
  in a state whose rate limit is exhausted; with a key that is not cached, the same
  address fails validation and a valid address fails the rate limit. In the state
  where the API has been switched off, the call with the cached key throws and
  changes nothing.
\<close>

theorem cached_key_short_circuits_witness:
  "reachable_api sent_once_busy \<and> enabled (sendgrid sent_once_busy) \<and>
   map_of (idempotencyCache (sendgridLimiter sent_once_busy)) ''7-send_email'' =
     Some (''msg_1200_k3j9x0q2a'', 1200) \<and>
   sendEmail ''invalid-email'' ''Hello'' ''7-send_email'' (env_at 1300 0) sent_once_busy =
     (Inr ''msg_1200_k3j9x0q2a'',
      sent_once_busy\<lparr>effects := effects sent_once_busy @
         [LoggedIdempotent ''7-send_email'' ''msg_1200_k3j9x0q2a'', Slept 50]\<rparr>) \<and>
   fst (sendEmail ''invalid-email'' ''Hello'' ''8-send_email'' (env_at 1300 0) sent_once_busy) =
     Inl (InvalidEmailError ''Invalid email format: invalid-email'') \<and>
   fst (sendEmail ''test2@example.com'' ''Hello'' ''8-send_email'' (env_at 1300 0)
     sent_once_busy) = Inl (RateLimitError ''SendGrid rate limit exceeded (500/sec)'') \<and>
   reachable_api sent_once_disabled \<and> \<not> enabled (sendgrid sent_once_disabled) \<and>
   map_of (idempotencyCache (sendgridLimiter sent_once_disabled)) ''7-send_email'' =
     Some (''msg_1200_k3j9x0q2a'', 1200) \<and>
   sendEmail ''test1@example.com'' ''Hello'' ''7-send_email'' (env_at 1300 0)
     sent_once_disabled =
     (Inl (SendGridError ''SendGrid API is disabled''), sent_once_disabled)"
proof -
  have en: "enabled (sendgrid sent_once_busy)"
    by (simp add: sendEmail_defs example_defs sent_once_busy_def)
  have hit: "map_of (idempotencyCache (sendgridLimiter sent_once_busy)) ''7-send_email'' =
     Some (''msg_1200_k3j9x0q2a'', 1200)"
    by (simp add: sendEmail_defs example_defs sent_once_busy_def)
  have win: "now_checkIdempotency (env_at 1300 0) - 1200 < 24 * 60 * 60 * 1000"
    by (simp add: env_at_def)
  have a: "fst (sendEmail ''invalid-email'' ''Hello'' ''8-send_email'' (env_at 1300 0)
     sent_once_busy) = Inl (InvalidEmailError ''Invalid email format: invalid-email'')"
    by (simp add: sendEmail_defs example_defs sent_once_busy_def)
  have b: "fst (sendEmail ''test2@example.com'' ''Hello'' ''8-send_email'' (env_at 1300 0)
     sent_once_busy) = Inl (RateLimitError ''SendGrid rate limit exceeded (500/sec)'')"
    by (simp add: sendEmail_defs example_defs sent_once_busy_def)
  have off: "\<not> enabled (sendgrid sent_once_disabled)"
    by (simp add: sendEmail_defs example_defs sent_once_disabled_def)
  have hit_off: "map_of (idempotencyCache (sendgridLimiter sent_once_disabled)) ''7-send_email'' =
     Some (''msg_1200_k3j9x0q2a'', 1200)"
    by (simp add: sendEmail_defs example_defs sent_once_disabled_def)
  note replay = cached_key_short_circuits [OF reachable_sent_once_busy hit win,
      of "''invalid-email''" "''Hello''"]
  note refused = cached_key_short_circuits [OF reachable_sent_once_disabled hit_off win,
      of "''test1@example.com''" "''Hello''"]
  from replay en have "sendEmail ''invalid-email'' ''Hello'' ''7-send_email'' (env_at 1300 0)
      sent_once_busy =
     (Inr ''msg_1200_k3j9x0q2a'',
      sent_once_busy\<lparr>effects := effects sent_once_busy @
         [LoggedIdempotent ''7-send_email'' ''msg_1200_k3j9x0q2a'', Slept 50]\<rparr>)"
    by blast
  moreover
  from refused off have "sendEmail ''test1@example.com'' ''Hello'' ''7-send_email''
      (env_at 1300 0) sent_once_disabled =
     (Inl (SendGridError ''SendGrid API is disabled''), sent_once_disabled)"
    by blast
  ultimately show ?thesis
    using reachable_sent_once_busy reachable_sent_once_disabled en off hit hit_off a b
    by simp
qed

section \<open>Properties of the transaction wrapper\<close>

lemmas transaction_defs =
  transaction_def transaction_enter_def transaction_exit_def transaction_catch_def
  sql_begin_def sql_commit_def sql_rollback_def db_write_def Let_def

text \<open>
  C9 (counterexample). A transaction entered inside another one (depth 1, a SQLite
  transaction open) whose callback inserts a row and throws: the error is re-raised,
  but nothing is rolled back, and the row is still visible afterwards. When the outer
  callback catches the error and returns, the outer transaction commits the row.
\<close>

theorem nested_transaction_counterexample:
  "transaction insert_then_throw
     \<lparr>db = \<lparr>contents = [], rollback_to = Some []\<rparr>, transactionDepth = 1\<rparr> =
     (Inl (Error ''boom''),
      \<lparr>db = \<lparr>contents = [''job 2''], rollback_to = Some []\<rparr>, transactionDepth = 1\<rparr>) \<and>
   transaction catching_callback idle_store =
     (Inr 0, \<lparr>db = \<lparr>contents = [''job 2''], rollback_to = None\<rparr>, transactionDepth = 0\<rparr>)"
  by (simp add: transaction_defs idle_store_def insert_then_throw_def catching_callback_def)

text \<open>
  Two transactions that overlap (the second is entered while the callback of the
  first is suspended, and ends after it): the first returns normally at depth 1 and
  commits nothing; the second throws at depth 0 and rolls back the rows of both.
\<close>

lemma overlapping_transactions_share_one_fate:
  "transaction_enter idle_store =
     Inr \<lparr>db = \<lparr>contents = [], rollback_to = Some []\<rparr>, transactionDepth = 1\<rparr> \<and>
   transaction_enter \<lparr>db = \<lparr>contents = [], rollback_to = Some []\<rparr>, transactionDepth = 1\<rparr> =
     Inr \<lparr>db = \<lparr>contents = [], rollback_to = Some []\<rparr>, transactionDepth = 2\<rparr> \<and>
   transaction_exit (Inr (7::nat))
     \<lparr>db = \<lparr>contents = [''job 1'', ''job 2''], rollback_to = Some []\<rparr>, transactionDepth = 2\<rparr> =
     (Inr 7,
      \<lparr>db = \<lparr>contents = [''job 1'', ''job 2''], rollback_to = Some []\<rparr>, transactionDepth = 1\<rparr>) \<and>
   transaction_exit (Inl (Error ''boom'') :: js_error + nat)
     \<lparr>db = \<lparr>contents = [''job 1'', ''job 2''], rollback_to = Some []\<rparr>, transactionDepth = 1\<rparr> =
     (Inl (Error ''boom''), idle_store)"
  by (simp add: transaction_defs idle_store_def)

text \<open>
  A callback that ends the transaction itself (it runs \<^verbatim>\<open>COMMIT\<close>): the \<^verbatim>\<open>COMMIT\<close> of
  the wrapper fails inside the \<^verbatim>\<open>try\<close>, the \<^verbatim>\<open>catch\<close> block lowers the depth a second
  time, and the depth is left at -1.
\<close>

lemma commit_failure_leaves_depth_negative:
  "transaction (\<lambda>w. (Inr (1::nat), w\<lparr>db := (db w)\<lparr>rollback_to := None\<rparr>\<rparr>)) idle_store =
     (Inl (SqliteError ''cannot commit - no transaction is active'' ''SQLITE_ERROR''),
      \<lparr>db = \<lparr>contents = [], rollback_to = None\<rparr>, transactionDepth = - 1\<rparr>)"
  by (simp add: transaction_defs idle_store_def)

text \<open>
  C9 (amended). Let the callback, started in the state \<^verbatim>\<open>transaction\<close> enters it in,
  return or throw \<open>r\<close> in a state \<open>w'\<close> where the depth is what it was at its start.
  For an outermost transaction (entered at depth 0 with no SQLite transaction open,
  and the transaction it opened still open when the callback ends): if the callback
  returns, its result is returned and its writes are committed; if it throws, the
  error is re-raised and the store is exactly as it was at entry. For a transaction
  entered at another depth (one nested in another, whose callback likewise ends at
  the depth it started at): the wrapper runs no \<^verbatim>\<open>BEGIN\<close>, \<^verbatim>\<open>COMMIT\<close> or \<^verbatim>\<open>ROLLBACK\<close>,
  it returns or re-raises what its callback did and leaves the store as the callback
  left it, the writes in place whichever it is. Nothing is said here of a callback
  that ends at another depth than it started at, as the callback of a transaction
  does when another transaction begins while it runs and ends after it.
\<close>

theorem transaction_commit_or_rollback:
  fixes w :: "'st store" and callback :: "('st, 'a) callback"
  assumes run: "callback (w\<lparr>db := c, transactionDepth := transactionDepth w + 1\<rparr>) = (r, w')"
    and depth_kept: "transactionDepth w' = transactionDepth w + 1"
  shows
    "(transactionDepth w = 0 \<and> rollback_to (db w) = None \<and>
      c = (db w)\<lparr>rollback_to := Some (contents (db w))\<rparr> \<and>
      rollback_to (db w') = Some (contents (db w)) \<longrightarrow>
      transaction callback w =
        (case r of
           Inr result \<Rightarrow>
             (Inr result, w'\<lparr>db := (db w')\<lparr>rollback_to := None\<rparr>, transactionDepth := 0\<rparr>)
         | Inl error \<Rightarrow> (Inl error, w))) \<and>
     (transactionDepth w \<noteq> 0 \<and> c = db w \<longrightarrow>
      transaction callback w = (r, w'\<lparr>transactionDepth := transactionDepth w\<rparr>))"
proof (intro conjI impI)
  assume top: "transactionDepth w = 0 \<and> rollback_to (db w) = None \<and>
      c = (db w)\<lparr>rollback_to := Some (contents (db w))\<rparr> \<and>
      rollback_to (db w') = Some (contents (db w))"
  then have enter: "transaction_enter w = Inr (w\<lparr>db := c, transactionDepth := transactionDepth w + 1\<rparr>)"
    by (simp add: transaction_enter_def sql_begin_def)
  have leave: "transaction callback w = transaction_exit r w'"
    by (simp add: transaction_def enter run)
  have restored: "w'\<lparr>transactionDepth := 0,
        db := (db w')\<lparr>contents := contents (db w), rollback_to := None\<rparr>\<rparr> = w"
    using top by simp
  show "transaction callback w =
        (case r of
           Inr result \<Rightarrow>
             (Inr result, w'\<lparr>db := (db w')\<lparr>rollback_to := None\<rparr>, transactionDepth := 0\<rparr>)
         | Inl error \<Rightarrow> (Inl error, w))"
  proof (cases r)
    case (Inr result)
    with top depth_kept show ?thesis
      by (simp add: leave transaction_exit_def sql_commit_def Let_def)
  next
    case (Inl error)
    with top depth_kept restored show ?thesis
      by (simp add: leave transaction_exit_def transaction_catch_def sql_rollback_def Let_def)
  qed
next
  assume nested: "transactionDepth w \<noteq> 0 \<and> c = db w"
  then have enter: "transaction_enter w = Inr (w\<lparr>db := c, transactionDepth := transactionDepth w + 1\<rparr>)"
    by (simp add: transaction_enter_def)
  have leave: "transaction callback w = transaction_exit r w'"
    by (simp add: transaction_def enter run)
  show "transaction callback w = (r, w'\<lparr>transactionDepth := transactionDepth w\<rparr>)"
    using nested depth_kept
    by (cases r) (simp_all add: leave transaction_exit_def transaction_catch_def Let_def)
qed

text \<open>
  Witness for C9: an outermost transaction that returns, one that throws, and a
  nested one that throws.
\<close>

theorem transaction_commit_or_rollback_witness:
  "transaction insert_then_return idle_store =
     (Inr 7, \<lparr>db = \<lparr>contents = [''job 1''], rollback_to = None\<rparr>, transactionDepth = 0\<rparr>) \<and>
   transaction insert_then_throw idle_store = (Inl (Error ''boom''), idle_store) \<and>
   transaction insert_then_throw
     \<lparr>db = \<lparr>contents = [''job 1''], rollback_to = Some []\<rparr>, transactionDepth = 1\<rparr> =
     (Inl (Error ''boom''),
      \<lparr>db = \<lparr>contents = [''job 1'', ''job 2''], rollback_to = Some []\<rparr>, transactionDepth = 1\<rparr>)"
proof -
  have a: "insert_then_return
      (idle_store\<lparr>db := \<lparr>contents = [], rollback_to = Some []\<rparr>,
         transactionDepth := transactionDepth idle_store + 1\<rparr>) =
      (Inr 7, \<lparr>db = \<lparr>contents = [''job 1''], rollback_to = Some []\<rparr>, transactionDepth = 1\<rparr>)"
    by (simp add: transaction_defs idle_store_def insert_then_return_def insert_then_throw_def)
  have b: "insert_then_throw
      (idle_store\<lparr>db := \<lparr>contents = [], rollback_to = Some []\<rparr>,
         transactionDepth := transactionDepth idle_store + 1\<rparr>) =
      (Inl (Error ''boom''),
       \<lparr>db = \<lparr>contents = [''job 2''], rollback_to = Some []\<rparr>, transactionDepth = 1\<rparr>)"
    by (simp add: transaction_defs idle_store_def insert_then_return_def insert_then_throw_def)
  have c: "insert_then_throw
      (\<lparr>db = \<lparr>contents = [''job 1''], rollback_to = Some []\<rparr>, transactionDepth = 1\<rparr>
        \<lparr>db := \<lparr>contents = [''job 1''], rollback_to = Some []\<rparr>,
         transactionDepth := transactionDepth
           \<lparr>db = \<lparr>contents = [''job 1''], rollback_to = Some []\<rparr>, transactionDepth = 1\<rparr> + 1\<rparr>) =
      (Inl (Error ''boom''),
       \<lparr>db = \<lparr>contents = [''job 1'', ''job 2''], rollback_to = Some []\<rparr>, transactionDepth = 2\<rparr>)"
    by (simp add: transaction_defs idle_store_def insert_then_return_def insert_then_throw_def)
  note a' = transaction_commit_or_rollback [where callback = insert_then_return
      and w = idle_store and c = "\<lparr>contents = [], rollback_to = Some []\<rparr>", OF a]
  note b' = transaction_commit_or_rollback [where callback = insert_then_throw
      and w = idle_store and c = "\<lparr>contents = [], rollback_to = Some []\<rparr>", OF b]
  note c' = transaction_commit_or_rollback [where callback = insert_then_throw
      and w = "\<lparr>db = \<lparr>contents = [''job 1''], rollback_to = Some []\<rparr>, transactionDepth = 1\<rparr>"
      and c = "\<lparr>contents = [''job 1''], rollback_to = Some []\<rparr>", OF c]
  from a' b' c' show ?thesis by (simp add: idle_store_def)
qed

section \<open>Properties of the table \<^verbatim>\<open>job_steps\<close>\<close>


lemma unique_message_pk:
  "str_includes ''UNIQUE constraint failed: job_steps.id'' ''UNIQUE constraint failed''"
  by simp

lemma unique_message_pair:
  "str_includes ''UNIQUE constraint failed: job_steps.job_id, job_steps.step_name''
     ''UNIQUE constraint failed''"
  by simp











section \<open>The candidate module as it stands\<close>

text \<open>
  C1 (the code at the failing input). Five calls of \<^verbatim>\<open>claimNextJob\<close> made together
  against the ten pending jobs of the test data: every call throws "Not implemented",
  none returns a job, and the store is untouched. The claim has min(5, 10) = 5 of them
  return a job.
\<close>

theorem claimNextJob_not_implemented:
  "claim_all 5 test_system = (replicate 5 (Inl (Error ''Not implemented'')), test_system) \<and>
   length (filter returned_job (fst (claim_all 5 test_system))) = 0 \<and>
   min 5 (length (pending_jobs test_system)) = 5"
  by (simp add: eval_nat_numeral claimNextJob_def pending_jobs_def test_system_def test_job_def)

text \<open>
  \<^verbatim>\<open>processJob\<close> on a pending job at its first step throws "Not implemented": it
  writes no ledger row and changes no job. The step is not run, by the first call or
  by a later one.
\<close>

lemma processJob_not_implemented:
  "processJob (test_job 1) test_system = (Inl (Error ''Not implemented''), test_system) \<and>
   step_rows (job_steps (snd (processJob (test_job 1) test_system))) = [] \<and>
   jobs (snd (processJob (test_job 1) test_system)) = jobs test_system"
  by (simp add: processJob_def test_system_def empty_job_steps_def)


text \<open>
  C3 (the code at the failing input). \<^verbatim>\<open>createCampaignJobs\<close> throws "Not implemented"
  for three addresses and for none, and creates no job.
\<close>

theorem createCampaignJobs_not_implemented:
  "createCampaignJobs 1 [''user1@example.com'', ''user2@example.com'', ''user3@example.com'']
     test_system = (Inl (Error ''Not implemented''), test_system) \<and>
   createCampaignJobs 1 [] test_system = (Inl (Error ''Not implemented''), test_system)"
  by (simp add: createCampaignJobs_def)

text \<open>
  C4 (the code at the failing input). \<^verbatim>\<open>recoverStalledJobs\<close> with a timeout of 300
  seconds, on a job that has been processing without a heartbeat for longer: it throws
  "Not implemented", and the job is still processing and still owned by its worker.
\<close>

theorem recoverStalledJobs_not_implemented:
  "recoverStalledJobs 300 stalled_system = (Inl (Error ''Not implemented''), stalled_system) \<and>
   map status (jobs (snd (recoverStalledJobs 300 stalled_system))) = [Processing] \<and>
   map workerId (jobs (snd (recoverStalledJobs 300 stalled_system))) = [Some ''worker-1'']"
  by (simp add: recoverStalledJobs_def stalled_system_def stalled_job_def)

end
